theory Spec2Isabelle
  imports Main "HOL-Library.Sublist"
begin

section \<open>The supervisor \<open>s3p.py\<close>: values, state and the operating system\<close>

text \<open>
  The program starts three helper processes (backplane, websocket gateway, picoboard
  gateway), watches them from a monitor thread and kills them when it exits. Everything
  it does is a call into the operating system (\<open>psutil\<close>, \<open>subprocess\<close>, \<open>time\<close>,
  \<open>print\<close>), so the model threads a record of the object's fields through the methods,
  appends every effect to a trace, and takes the answers of the operating system from a
  record of oracle functions.
\<close>

type_synonym pid = nat

text \<open>The three exceptions of \<open>psutil\<close> that the source names in its \<open>except\<close> clauses.\<close>

datatype psutil_error = NoSuchProcess | AccessDenied | ZombieProcess

text \<open>
  Exceptions that leave a method: a \<open>psutil\<close> error raised outside a \<open>try\<close>, the
  \<open>AttributeError\<close> of \<open>None.name()\<close>, and the \<open>OSError\<close> (\<open>FileNotFoundError\<close>,
  \<open>PermissionError\<close>) of \<open>subprocess.Popen\<close>, which carries the command.
\<close>

datatype exn = PsutilError psutil_error | AttributeError | OSError "string list"

datatype role = Backplane | WebsocketGateway | PicoboardGateway

text \<open>
  The trace. \<open>Sleep\<close> carries the duration in milliseconds (\<open>time.sleep(1)\<close> is
  \<open>Sleep 1000\<close>), \<open>Popen\<close> the command and whether \<open>CREATE_NO_WINDOW\<close> was passed,
  \<open>Kill\<close> the branch of \<open>killall\<close> that called \<open>p.kill()\<close> and the identifier the
  process object was made from, \<open>StopSet\<close> and \<open>StopClear\<close> the calls of
  \<open>stop_event.set()\<close> and \<open>stop_event.clear()\<close>.
\<close>

datatype event =
    Print string
  | Sleep nat
  | Popen "string list" bool
  | Kill role "pid option"
  | StopSet
  | StopClear

text \<open>
  A Python value as \<open>killall\<close> sees its arguments: \<open>None\<close>, an integer identifier, or
  a \<open>psutil.Process\<close> object (made from an identifier, \<open>None\<close> standing for the
  calling process).
\<close>

datatype pyval = PyNone | PyInt pid | PyProcess "pid option"

text \<open>Truth value of \<open>if x:\<close>: \<open>None\<close> and \<open>0\<close> are false, an object is true.\<close>

fun truthy :: "pyval \<Rightarrow> bool" where
  "truthy PyNone = False"
| "truthy (PyInt n) = (n \<noteq> 0)"
| "truthy (PyProcess _) = True"

fun py :: "pid option \<Rightarrow> pyval" where
  "py None = PyNone"
| "py (Some n) = PyInt n"

text \<open>
  The fields of an \<open>S3P\<close> object, the arguments registered with \<open>atexit\<close> (interpreter
  state, \<open>None\<close> until line 63 runs) and the trace.
\<close>

record S3P =
  com_port :: "string option"
  backplane_exists :: bool
  proc_bp :: "pid option"
  proc_awg :: "pid option"
  proc_hwg :: "pid option"
  stop_event :: bool
  atexit :: "(pyval \<times> pyval \<times> pyval) option"
  out :: "event list"

text \<open>
  The answers of the operating system. \<open>os_Process pid\<close> is \<open>psutil.Process(pid)\<close>:
  \<open>None\<close> when the object is made, the error otherwise; \<open>psutil.Process(None)\<close> is
  the calling process. \<open>os_name\<close>, \<open>os_status\<close> and \<open>os_kill\<close> are the methods
  \<open>name()\<close>, \<open>status()\<close> and \<open>kill()\<close> of such an object (\<open>os_kill\<close> is \<open>True\<close> when
  \<open>kill()\<close> returns, \<open>False\<close> when it raises). \<open>os_Popen cmd\<close> is the \<open>pid\<close> of
  \<open>subprocess.Popen(cmd, ...)\<close>, or \<open>None\<close> when it raises.
\<close>

record os =
  os_win32 :: bool
  os_pids :: "pid list"
  os_Process :: "pid option \<Rightarrow> psutil_error option"
  os_name :: "pid option \<Rightarrow> psutil_error + string"
  os_status :: "pid option \<Rightarrow> psutil_error + string"
  os_kill :: "pid option \<Rightarrow> bool"
  os_Popen :: "string list \<Rightarrow> pid option"

definition emit :: "event \<Rightarrow> S3P \<Rightarrow> S3P" where
  "emit e s = s\<lparr>out := out s @ [e]\<rparr>"

section \<open>\<open>S3P.killall\<close> (lines 118 to 163)\<close>

text \<open>
  One \<open>try/except/else\<close> block of \<open>killall\<close>: the process object is made from the
  field of \<open>self\<close> (not from the argument) and bound to the local \<open>p\<close>; when that
  raises one of the three \<open>psutil\<close> errors, \<open>p\<close> keeps its value and nothing is printed;
  otherwise the message is printed and \<open>p.kill()\<close> is called, a failure of which is
  caught by the bare \<open>except\<close> and printed.
\<close>

definition kill_block ::
  "os \<Rightarrow> role \<Rightarrow> pid option \<Rightarrow> string \<Rightarrow> string \<Rightarrow> pyval \<Rightarrow> S3P \<Rightarrow> pyval \<times> S3P" where
  "kill_block sys r ident msg err p s =
     (case os_Process sys ident of
        Some e \<Rightarrow> (p, s)
      | None \<Rightarrow>
          (let s1 = emit (Kill r ident) (emit (Print msg) s)
           in (PyProcess ident, if os_kill sys ident then s1 else emit (Print err) s1)))"

definition killall :: "os \<Rightarrow> pyval \<Rightarrow> pyval \<Rightarrow> pyval \<Rightarrow> S3P \<Rightarrow> S3P" where
  "killall sys b w p s =
     (let s0 = emit StopSet (s\<lparr>stop_event := True\<rparr>);
          (p1, s1) = (if truthy b
                      then kill_block sys Backplane (proc_bp s0)
                             ''killing backplane'' ''exception in killing backplane'' p s0
                      else (p, s0));
          (p2, s2) = (if truthy w
                      then kill_block sys WebsocketGateway (proc_awg s1)
                             ''killing websocket gateway'' ''exception in killing awg'' p1 s1
                      else (p1, s1));
          (p3, s3) = (if truthy p2
                      then kill_block sys PicoboardGateway (proc_hwg s2)
                             ''killing picoboard gateway'' ''exception in killing pbgw'' p2 s2
                      else (p2, s2))
      in s3)"

section \<open>\<open>S3P.start_backplane\<close>, \<open>start_wsgw\<close>, \<open>start_pbgw\<close> (lines 165 to 234)\<close>

text \<open>
  The loop over \<open>psutil.pids()\<close>. The local \<open>p\<close> is \<open>None\<close> before the first object
  is made and keeps the previous object when making one fails. \<open>p.name()\<close> is outside
  the \<open>try\<close>: on \<open>None\<close> it raises \<open>AttributeError\<close>, and an error of \<open>name()\<close> itself
  is not caught.
\<close>

fun scan :: "os \<Rightarrow> pid list \<Rightarrow> pid option \<Rightarrow> S3P \<Rightarrow> exn option \<times> S3P" where
  "scan sys [] p s = (None, s)"
| "scan sys (i # rest) p s =
     (let p' = (case os_Process sys (Some i) of None \<Rightarrow> Some i | Some e \<Rightarrow> p)
      in case p' of
           None \<Rightarrow> (Some AttributeError, s)
         | Some q \<Rightarrow>
            (case os_name sys (Some q) of
               Inl e \<Rightarrow> (Some (PsutilError e), s)
             | Inr n \<Rightarrow>
                 if n = ''backplane''
                 then scan sys rest p'
                        ((emit (Print ''Backplane started.'') s)
                           \<lparr>backplane_exists := True, proc_bp := Some q\<rparr>)
                 else scan sys rest p' s))"

text \<open>
  \<open>subprocess.Popen(cmd, ...).pid\<close>: with \<open>CREATE_NO_WINDOW\<close> on \<open>win32\<close>, with the
  three pipes elsewhere.
\<close>

definition launch :: "os \<Rightarrow> string list \<Rightarrow> S3P \<Rightarrow> (exn + pid) \<times> S3P" where
  "launch sys cmd s =
     (let s1 = emit (Popen cmd (os_win32 sys)) s
      in case os_Popen sys cmd of
           None \<Rightarrow> (Inl (OSError cmd), s1)
         | Some i \<Rightarrow> (Inr i, s1))"

definition start_backplane :: "os \<Rightarrow> S3P \<Rightarrow> exn option \<times> S3P" where
  "start_backplane sys s =
     (case scan sys (os_pids sys) None s of
        (Some e, s1) \<Rightarrow> (Some e, s1)
      | (None, s1) \<Rightarrow>
          if \<not> backplane_exists s1
          then (case launch sys [''backplane''] s1 of
                  (Inl e, s2) \<Rightarrow> (Some e, s2)
                | (Inr i, s2) \<Rightarrow>
                    (None, emit (Print ''Backplane started.'')
                             (s2\<lparr>proc_bp := Some i, backplane_exists := True\<rparr>)))
          else (None, s1))"

definition wsgw_start :: "string list" where
  "wsgw_start = [''wsgw'', ''-i'', ''9004'']"

definition start_wsgw :: "os \<Rightarrow> S3P \<Rightarrow> exn option \<times> S3P" where
  "start_wsgw sys s =
     (case launch sys wsgw_start s of
        (Inl e, s1) \<Rightarrow> (Some e, s1)
      | (Inr i, s1) \<Rightarrow>
          (None, emit (Print ''Websocket Gateway started.'') (s1\<lparr>proc_awg := Some i\<rparr>)))"

text \<open>\<open>if self.com_port:\<close> is false for \<open>None\<close> and for the empty string.\<close>

definition pbgw_start :: "string option \<Rightarrow> string list" where
  "pbgw_start c =
     (case c of
        None \<Rightarrow> [''pbgw'']
      | Some port \<Rightarrow> if port = [] then [''pbgw''] else [''pbgw'', ''-c'', port])"

definition start_pbgw :: "os \<Rightarrow> S3P \<Rightarrow> exn option \<times> S3P" where
  "start_pbgw sys s =
     (case launch sys (pbgw_start (com_port s)) s of
        (Inl e, s1) \<Rightarrow> (Some e, s1)
      | (Inr i, s1) \<Rightarrow>
          (None, emit (Print ''Picoboard Gateway started.'') (s1\<lparr>proc_hwg := Some i\<rparr>)))"

section \<open>\<open>S3P.run\<close>, the monitor thread (lines 85 to 116)\<close>

text \<open>The three advisory lines; the second tests \<open>proc_bp\<close>, as line 91 does.\<close>

definition advisories :: "S3P \<Rightarrow> S3P" where
  "advisories s =
     (let s1 = (if \<not> truthy (py (proc_bp s)) then emit (Print ''backplane not up'') s else s);
          s2 = (if \<not> truthy (py (proc_bp s1)) then emit (Print ''wsgw not up'') s1 else s1);
          s3 = (if \<not> truthy (py (proc_hwg s2)) then emit (Print ''pbgw not up'') s2 else s2)
      in s3)"

definition valid_status :: "string list" where
  "valid_status = [''sleeping'', ''running'', ''disk-sleep'']"

text \<open>
  The body of \<open>for pid in pid_list\<close>. \<open>bp\<close>, \<open>ws\<close> and \<open>pb\<close> are \<open>None\<close> (line 101)
  and never assigned, so every call is \<open>killall(None, None, None)\<close>. \<open>print(a, b)\<close>
  writes \<open>a\<close>, a space and \<open>b\<close>.
\<close>

definition poll :: "os \<Rightarrow> pid option \<Rightarrow> S3P \<Rightarrow> S3P" where
  "poll sys i s =
     (case os_Process sys i of
        Some e \<Rightarrow> killall sys PyNone PyNone PyNone s
      | None \<Rightarrow>
         (case os_status sys i of
            Inl e \<Rightarrow> killall sys PyNone PyNone PyNone s
          | Inr status \<Rightarrow>
              if status \<notin> set valid_status
              then killall sys PyNone PyNone PyNone
                     (emit (Print ((if i = proc_bp s
                                    then ''Backplane exited with status of: ''
                                    else if i = proc_awg s
                                    then ''Websocket Gateway exited with status of: ''
                                    else ''Picoboard Gateway exited with status of: '')
                                   @ '' '' @ status)) s)
              else s))"

text \<open>One pass of the \<open>while\<close> body: the \<open>for\<close> loop (no \<open>break\<close>), then \<open>time.sleep(.3)\<close>.\<close>

definition cycle :: "os \<Rightarrow> pid option list \<Rightarrow> S3P \<Rightarrow> S3P" where
  "cycle sys pid_list s = emit (Sleep 300) (foldl (\<lambda>t i. poll sys i t) s pid_list)"

section \<open>\<open>S3P.__init__\<close> (lines 39 to 83)\<close>

definition new_S3P :: "string option \<Rightarrow> S3P" where
  "new_S3P c = \<lparr>com_port = c, backplane_exists = False, proc_bp = None, proc_awg = None,
                proc_hwg = None, stop_event = False, atexit = None, out = []\<rparr>"

text \<open>Lines 44 to 61: the fields, then the three starts with \<open>time.sleep(1)\<close> after the first.\<close>

definition startup :: "os \<Rightarrow> string option \<Rightarrow> exn option \<times> S3P" where
  "startup sys c =
     (case start_backplane sys (new_S3P c) of
        (Some e, s1) \<Rightarrow> (Some e, s1)
      | (None, s1) \<Rightarrow>
         (case start_wsgw sys (emit (Sleep 1000) s1) of
            (Some e, s2) \<Rightarrow> (Some e, s2)
          | (None, s2) \<Rightarrow> start_pbgw sys s2))"

text \<open>
  \<open>sys.exit(code)\<close>: the handler registered with \<open>atexit\<close> runs with the arguments it
  was registered with, then the process ends with \<open>code\<close>.
\<close>

definition sys_exit :: "os \<Rightarrow> int \<Rightarrow> S3P \<Rightarrow> int option \<times> S3P" where
  "sys_exit sys code s =
     (Some code, case atexit s of None \<Rightarrow> s | Some (b, w, p) \<Rightarrow> killall sys b w p s)"

text \<open>
  The two threads after \<open>self.start()\<close>, interleaved at the grain of one loop pass. A
  schedule is the list of passes in the order they happen: a pass of the monitor's
  \<open>while\<close> loop with the operating system as it answers then, or a pass of the main
  \<open>while True\<close> loop with whether \<open>SIGINT\<close> or \<open>SIGTERM\<close> arrives during its
  \<open>time.sleep(.01)\<close> (the handler prints and raises \<open>KeyboardInterrupt\<close>, which the
  \<open>except\<close> turns into \<open>sys.exit(0)\<close>). The monitor's loop ends once the event is set.
  A schedule that ends before the main loop exits leaves the program running: no exit
  status, \<open>None\<close>.
\<close>

datatype pass = MonitorPass os | MainPass bool

fun threads :: "os \<Rightarrow> pid option list \<Rightarrow> pass list \<Rightarrow> S3P \<Rightarrow> int option \<times> S3P" where
  "threads final pid_list [] s = (None, s)"
| "threads final pid_list (MonitorPass sys # rest) s =
     threads final pid_list rest (if stop_event s then s else cycle sys pid_list s)"
| "threads final pid_list (MainPass sig # rest) s =
     (if stop_event s
      then sys_exit final 0
             (emit (Print ''Exiting. Error detected - is your Picoboard plugged in?'') s)
      else (let s1 = emit (Sleep 10) s
            in if sig
               then sys_exit final 0 (emit (Print ''Exiting Through Signal Handler'') s1)
               else threads final pid_list rest s1))"

text \<open>
  Lines 63 to 74: register \<open>killall\<close> with the three identifiers, create and clear the
  event, start the thread (whose first statements are the advisory lines and the
  \<open>pid_list\<close>).
\<close>

definition arm :: "S3P \<Rightarrow> S3P" where
  "arm s =
     advisories
       (emit StopClear
          (s\<lparr>atexit := Some (py (proc_bp s), py (proc_awg s), py (proc_hwg s)),
             stop_event := False\<rparr>))"

definition pid_list_of :: "S3P \<Rightarrow> pid option list" where
  "pid_list_of s = [proc_bp s, proc_awg s, proc_hwg s]"

datatype outcome = Raised exn S3P | Exited int S3P | StillRunning S3P

text \<open>
  The whole constructor: \<open>boot\<close> answers during startup, \<open>final\<close> answers when the exit
  handler runs. An exception of the startup leaves the constructor uncaught, before
  anything is registered with \<open>atexit\<close>.
\<close>

definition S3P_init :: "os \<Rightarrow> os \<Rightarrow> string option \<Rightarrow> pass list \<Rightarrow> outcome" where
  "S3P_init boot final c sched =
     (case startup boot c of
        (Some e, s) \<Rightarrow> Raised e s
      | (None, s) \<Rightarrow>
         (case threads final (pid_list_of (arm s)) sched (arm s) of
            (None, s') \<Rightarrow> StillRunning s'
          | (Some code, s') \<Rightarrow> Exited code s'))"

text \<open>
  The state a run has reached, and the status it passed to \<open>sys.exit\<close>: \<open>None\<close> for a
  run that has not exited that way (it is still running, or an exception has left the
  constructor).
\<close>

fun state_of :: "outcome \<Rightarrow> S3P" where
  "state_of (Raised e s) = s"
| "state_of (Exited code s) = s"
| "state_of (StillRunning s) = s"

fun exit_code :: "outcome \<Rightarrow> int option" where
  "exit_code (Exited code s) = Some code"
| "exit_code _ = None"

section \<open>Notions the properties are stated with\<close>

text \<open>The commands given to \<open>subprocess.Popen\<close>, in the order of the trace.\<close>

fun launches :: "event list \<Rightarrow> string list list" where
  "launches [] = []"
| "launches (Popen cmd f # es) = cmd # launches es"
| "launches (_ # es) = launches es"

text \<open>The calls of \<open>kill()\<close> made in the block of one role.\<close>

fun is_kill :: "role \<Rightarrow> event \<Rightarrow> bool" where
  "is_kill r (Kill r' i) = (r' = r)"
| "is_kill r _ = False"

definition kills :: "role \<Rightarrow> event list \<Rightarrow> nat" where
  "kills r es = length (filter (is_kill r) es)"

text \<open>
  The value of the event after a trace, from the value before it, and the number of
  times it went from unset to set on the way.
\<close>

fun flag_after :: "bool \<Rightarrow> event list \<Rightarrow> bool" where
  "flag_after f [] = f"
| "flag_after f (StopSet # es) = flag_after True es"
| "flag_after f (StopClear # es) = flag_after False es"
| "flag_after f (_ # es) = flag_after f es"

fun rises :: "bool \<Rightarrow> event list \<Rightarrow> nat" where
  "rises f [] = 0"
| "rises f (StopSet # es) = (if f then 0 else 1) + rises True es"
| "rises f (StopClear # es) = rises False es"
| "rises f (_ # es) = rises f es"

text \<open>The identifier the object holds for a role.\<close>

fun ident :: "role \<Rightarrow> S3P \<Rightarrow> pid option" where
  "ident Backplane s = proc_bp s"
| "ident WebsocketGateway s = proc_awg s"
| "ident PicoboardGateway s = proc_hwg s"

text \<open>
  What the monitor accepts of one identifier: the process object is made and its status
  is one of the three valid ones.
\<close>

definition healthy :: "os \<Rightarrow> pid option \<Rightarrow> bool" where
  "healthy sys i =
     (os_Process sys i = None \<and>
      (case os_status sys i of Inl e \<Rightarrow> False | Inr status \<Rightarrow> status \<in> set valid_status))"

text \<open>A pass that neither detects anything nor receives a signal.\<close>

fun quiet_pass :: "pid option list \<Rightarrow> pass \<Rightarrow> bool" where
  "quiet_pass pid_list (MonitorPass sys) = list_all (healthy sys) pid_list"
| "quiet_pass pid_list (MainPass sig) = (\<not> sig)"

text \<open>
  The processes the scan of \<open>start_backplane\<close> can see as a backplane: those of the
  enumeration whose object is made and whose name is \<open>backplane\<close>.
\<close>

definition backplanes :: "os \<Rightarrow> pid list" where
  "backplanes sys =
     filter (\<lambda>i. os_Process sys (Some i) = None \<and> os_name sys (Some i) = Inr ''backplane'')
       (os_pids sys)"

text \<open>
  The events of one block of \<open>killall\<close> and of a whole call after \<open>stop_event.set()\<close>,
  written out. The third block runs when the argument \<open>p\<close> is true or an earlier block
  has bound \<open>p\<close> to a process object.
\<close>

definition block_events :: "os \<Rightarrow> role \<Rightarrow> pid option \<Rightarrow> string \<Rightarrow> string \<Rightarrow> event list" where
  "block_events sys r i msg err =
     (if os_Process sys i = None
      then [Print msg, Kill r i] @ (if os_kill sys i then [] else [Print err])
      else [])"

definition third_runs :: "os \<Rightarrow> pyval \<Rightarrow> pyval \<Rightarrow> pyval \<Rightarrow> S3P \<Rightarrow> bool" where
  "third_runs sys b w p s =
     (truthy p \<or> (truthy b \<and> os_Process sys (proc_bp s) = None)
               \<or> (truthy w \<and> os_Process sys (proc_awg s) = None))"

definition killall_events :: "os \<Rightarrow> pyval \<Rightarrow> pyval \<Rightarrow> pyval \<Rightarrow> S3P \<Rightarrow> event list" where
  "killall_events sys b w p s =
     (if truthy b
      then block_events sys Backplane (proc_bp s)
             ''killing backplane'' ''exception in killing backplane''
      else [])
     @ (if truthy w
        then block_events sys WebsocketGateway (proc_awg s)
               ''killing websocket gateway'' ''exception in killing awg''
        else [])
     @ (if third_runs sys b w p s
        then block_events sys PicoboardGateway (proc_hwg s)
               ''killing picoboard gateway'' ''exception in killing pbgw''
        else [])"

text \<open>Events that touch neither the stop event nor a process: what the startup emits.\<close>

fun inert :: "event \<Rightarrow> bool" where
  "inert (Print m) = True"
| "inert (Sleep d) = True"
| "inert (Popen cmd f) = True"
| "inert _ = False"

text \<open>
  What holds of the state while both threads run: the field agrees with the trace, the
  event has risen once if it is set and never otherwise, no \<open>kill()\<close> has been called,
  and the exit handler is registered with the three identifiers.
\<close>

definition running :: "S3P \<Rightarrow> bool" where
  "running s =
     (flag_after False (out s) = stop_event s \<and>
      rises False (out s) = (if stop_event s then 1 else 0) \<and>
      kills Backplane (out s) = 0 \<and> kills WebsocketGateway (out s) = 0 \<and>
      kills PicoboardGateway (out s) = 0 \<and>
      atexit s = Some (py (proc_bp s), py (proc_awg s), py (proc_hwg s)))"

text \<open>The trace a quiet prefix of the schedule adds: one sleep per pass.\<close>

fun quiet_events :: "pass list \<Rightarrow> event list" where
  "quiet_events [] = []"
| "quiet_events (MonitorPass sys # ps) = Sleep 300 # quiet_events ps"
| "quiet_events (MainPass sig # ps) = Sleep 10 # quiet_events ps"



text \<open>
  An operating system for the examples: no process is enumerated, every process object
  is made, is named \<open>python\<close>, is \<open>running\<close> and can be killed, and the three
  launches give the identifiers 100, 200 and 300.
\<close>

definition plain_os :: os where
  "plain_os =
     \<lparr>os_win32 = False, os_pids = [],
      os_Process = (\<lambda>i. None),
      os_name = (\<lambda>i. Inr ''python''),
      os_status = (\<lambda>i. Inr ''running''),
      os_kill = (\<lambda>i. True),
      os_Popen = (\<lambda>cmd. if cmd = [''backplane''] then Some 100
                       else if cmd = wsgw_start then Some 200 else Some 300)\<rparr>"

section \<open>Effects of the single operations\<close>

lemma emit_fields [simp]:
  "out (emit e s) = out s @ [e]"
  "proc_bp (emit e s) = proc_bp s"
  "proc_awg (emit e s) = proc_awg s"
  "proc_hwg (emit e s) = proc_hwg s"
  "stop_event (emit e s) = stop_event s"
  "atexit (emit e s) = atexit s"
  "backplane_exists (emit e s) = backplane_exists s"
  "com_port (emit e s) = com_port s"
  by (simp_all add: emit_def)

lemma kill_block_fields [simp]:
  "proc_bp (snd (kill_block sys r i m e p s)) = proc_bp s"
  "proc_awg (snd (kill_block sys r i m e p s)) = proc_awg s"
  "proc_hwg (snd (kill_block sys r i m e p s)) = proc_hwg s"
  "stop_event (snd (kill_block sys r i m e p s)) = stop_event s"
  "atexit (snd (kill_block sys r i m e p s)) = atexit s"
  "backplane_exists (snd (kill_block sys r i m e p s)) = backplane_exists s"
  "com_port (snd (kill_block sys r i m e p s)) = com_port s"
  by (simp_all add: kill_block_def Let_def split: option.splits)

lemma kill_block_out [simp]:
  "out (snd (kill_block sys r i m e p s)) = out s @ block_events sys r i m e"
  by (simp add: kill_block_def block_events_def Let_def split: option.splits)

lemma kill_block_fst [simp]:
  "fst (kill_block sys r i m e p s) = (if os_Process sys i = None then PyProcess i else p)"
  by (simp add: kill_block_def Let_def split: option.splits)

lemma killall_fields [simp]:
  "proc_bp (killall sys b w p s) = proc_bp s"
  "proc_awg (killall sys b w p s) = proc_awg s"
  "proc_hwg (killall sys b w p s) = proc_hwg s"
  "stop_event (killall sys b w p s) = True"
  "atexit (killall sys b w p s) = atexit s"
  "backplane_exists (killall sys b w p s) = backplane_exists s"
  "com_port (killall sys b w p s) = com_port s"
  by (simp_all add: killall_def Let_def split_beta)

lemma killall_out:
  "out (killall sys b w p s) = out s @ StopSet # killall_events sys b w p s"
  by (simp add: killall_def killall_events_def third_runs_def Let_def split_beta)

lemma killall_None:
  "killall sys PyNone PyNone PyNone s = emit StopSet (s\<lparr>stop_event := True\<rparr>)"
  by (simp add: killall_def)

section \<open>Counting on traces\<close>

lemma launches_append [simp]: "launches (xs @ ys) = launches xs @ launches ys"
  by (induction xs rule: launches.induct) simp_all

lemma kills_append [simp]: "kills r (xs @ ys) = kills r xs + kills r ys"
  by (simp add: kills_def)

lemma kills_simps [simp]:
  "kills r [] = 0"
  "kills r (Print m # es) = kills r es"
  "kills r (Sleep d # es) = kills r es"
  "kills r (Popen cmd f # es) = kills r es"
  "kills r (StopSet # es) = kills r es"
  "kills r (StopClear # es) = kills r es"
  "kills r (Kill r' i # es) = (if r' = r then Suc (kills r es) else kills r es)"
  by (simp_all add: kills_def)

lemma flag_after_append [simp]:
  "flag_after f (xs @ ys) = flag_after (flag_after f xs) ys"
  by (induction f xs rule: flag_after.induct) simp_all

lemma rises_append [simp]:
  "rises f (xs @ ys) = rises f xs + rises (flag_after f xs) ys"
  by (induction f xs rule: rises.induct) simp_all

lemma set_rises: "StopSet \<in> set es \<Longrightarrow> 1 \<le> rises False es"
  by (induction es rule: launches.induct) auto

lemma inert_trace:
  "list_all inert es \<Longrightarrow> flag_after f es = f \<and> rises f es = 0 \<and> kills r es = 0"
  by (induction f es rule: rises.induct) simp_all

lemma block_events_launches [simp]: "launches (block_events sys r i m e) = []"
  by (simp add: block_events_def)

lemma block_events_flag [simp]:
  "flag_after f (block_events sys r i m e) = f"
  "rises f (block_events sys r i m e) = 0"
  by (simp_all add: block_events_def)

lemma block_events_kills:
  "kills r' (block_events sys r i m e) = (if r' = r \<and> os_Process sys i = None then 1 else 0)"
  by (simp add: block_events_def)

lemma killall_events_launches [simp]: "launches (killall_events sys b w p s) = []"
  by (simp add: killall_events_def)

lemma killall_events_flag [simp]:
  "flag_after f (killall_events sys b w p s) = f"
  "rises f (killall_events sys b w p s) = 0"
  by (simp_all add: killall_events_def)

lemma killall_events_kills: "kills r (killall_events sys b w p s) \<le> 1"
  by (cases r) (simp_all add: killall_events_def block_events_kills)


section \<open>The monitor\<close>

lemma poll_healthy: "healthy sys i \<Longrightarrow> poll sys i s = s"
  by (auto simp: healthy_def poll_def split: option.splits sum.splits)

lemma poll_fields [simp]:
  "proc_bp (poll sys i s) = proc_bp s"
  "proc_awg (poll sys i s) = proc_awg s"
  "proc_hwg (poll sys i s) = proc_hwg s"
  "atexit (poll sys i s) = atexit s"
  "backplane_exists (poll sys i s) = backplane_exists s"
  "com_port (poll sys i s) = com_port s"
  by (simp_all add: poll_def killall_None split: option.splits sum.splits)

lemma poll_stop_event: "stop_event (poll sys i s) = (stop_event s \<or> \<not> healthy sys i)"
  by (auto simp: poll_def healthy_def killall_None split: option.splits sum.splits)

lemma poll_running: "running s \<Longrightarrow> running (poll sys i s)"
  by (auto simp: poll_def running_def killall_None split: option.splits sum.splits)

lemma poll_launches [simp]: "launches (out (poll sys i s)) = launches (out s)"
  by (simp add: poll_def killall_None split: option.splits sum.splits)

lemma polls_fields [simp]:
  "proc_bp (foldl (\<lambda>t i. poll sys i t) s pl) = proc_bp s"
  "proc_awg (foldl (\<lambda>t i. poll sys i t) s pl) = proc_awg s"
  "proc_hwg (foldl (\<lambda>t i. poll sys i t) s pl) = proc_hwg s"
  "atexit (foldl (\<lambda>t i. poll sys i t) s pl) = atexit s"
  "launches (out (foldl (\<lambda>t i. poll sys i t) s pl)) = launches (out s)"
  by (induction pl arbitrary: s) simp_all

lemma polls_stop_event:
  "stop_event (foldl (\<lambda>t i. poll sys i t) s pl) = (stop_event s \<or> \<not> list_all (healthy sys) pl)"
  by (induction pl arbitrary: s) (auto simp: poll_stop_event)

lemma polls_running: "running s \<Longrightarrow> running (foldl (\<lambda>t i. poll sys i t) s pl)"
  by (induction pl arbitrary: s) (simp_all add: poll_running)

lemma polls_healthy: "list_all (healthy sys) pl \<Longrightarrow> foldl (\<lambda>t i. poll sys i t) s pl = s"
  by (induction pl arbitrary: s) (simp_all add: poll_healthy)

lemma emit_running: "inert e \<Longrightarrow> running s \<Longrightarrow> running (emit e s)"
  by (cases e) (simp_all add: running_def)

lemma cycle_fields [simp]:
  "proc_bp (cycle sys pl s) = proc_bp s"
  "proc_awg (cycle sys pl s) = proc_awg s"
  "proc_hwg (cycle sys pl s) = proc_hwg s"
  "atexit (cycle sys pl s) = atexit s"
  "launches (out (cycle sys pl s)) = launches (out s)"
  by (simp_all add: cycle_def)

lemma cycle_stop_event:
  "stop_event (cycle sys pl s) = (stop_event s \<or> \<not> list_all (healthy sys) pl)"
  by (simp add: cycle_def polls_stop_event)

lemma cycle_running: "running s \<Longrightarrow> running (cycle sys pl s)"
  by (simp add: cycle_def polls_running emit_running)

lemma cycle_healthy: "list_all (healthy sys) pl \<Longrightarrow> cycle sys pl s = emit (Sleep 300) s"
  by (simp add: cycle_def polls_healthy)

section \<open>The exit handler and the two threads\<close>

lemma sys_exit_fields [simp]:
  "fst (sys_exit sys code s) = Some code"
  "proc_bp (snd (sys_exit sys code s)) = proc_bp s"
  "proc_awg (snd (sys_exit sys code s)) = proc_awg s"
  "proc_hwg (snd (sys_exit sys code s)) = proc_hwg s"
  "launches (out (snd (sys_exit sys code s))) = launches (out s)"
  by (simp_all add: sys_exit_def killall_out split: option.splits prod.splits)

lemma sys_exit_running:
  assumes "running s"
  shows "rises False (out (snd (sys_exit sys code s))) = 1"
    and "kills r (out (snd (sys_exit sys code s))) \<le> 1"
proof -
  from assms obtain b w p where a: "atexit s = Some (b, w, p)"
    by (simp add: running_def)
  from assms have k: "kills r (out s) = 0"
    by (cases r) (simp_all add: running_def)
  from assms a show "rises False (out (snd (sys_exit sys code s))) = 1"
    by (simp add: sys_exit_def killall_out running_def)
  from a k killall_events_kills [of r sys b w p s]
  show "kills r (out (snd (sys_exit sys code s))) \<le> 1"
    by (simp add: sys_exit_def killall_out)
qed

lemma threads_fields [simp]:
  "proc_bp (snd (threads final pl sched s)) = proc_bp s"
  "proc_awg (snd (threads final pl sched s)) = proc_awg s"
  "proc_hwg (snd (threads final pl sched s)) = proc_hwg s"
  "launches (out (snd (threads final pl sched s))) = launches (out s)"
  by (induction final pl sched s rule: threads.induct) (simp_all add: Let_def)


lemma running_counts:
  "running s \<Longrightarrow> rises False (out s) \<le> 1 \<and> kills r (out s) \<le> 1"
  by (cases r) (simp_all add: running_def)

lemma threads_running:
  "running s \<Longrightarrow>
   rises False (out (snd (threads final pl sched s))) \<le> 1 \<and>
   kills r (out (snd (threads final pl sched s))) \<le> 1 \<and>
   (fst (threads final pl sched s) \<noteq> None \<longrightarrow>
      rises False (out (snd (threads final pl sched s))) = 1)"
proof (induction final pl sched s rule: threads.induct)
  case (1 final pl s)
  from running_counts [OF this, of r] show ?case by simp
next
  case (2 final pl sys rest s)
  from "2.prems" have "running (if stop_event s then s else cycle sys pl s)"
    by (simp add: cycle_running)
  from "2.IH" [OF this] show ?case by simp
next
  case (3 final pl sig rest s)
  show ?case
  proof (cases "stop_event s")
    case True
    let ?t = "emit (Print ''Exiting. Error detected - is your Picoboard plugged in?'') s"
    from "3.prems" have "running ?t" by (simp add: emit_running)
    from sys_exit_running(1) [OF this, where sys = final and code = 0]
      sys_exit_running(2) [OF this, where sys = final and code = 0 and r = r] True
    show ?thesis by simp
  next
    case False
    let ?s1 = "emit (Sleep 10) s"
    from "3.prems" have r1: "running ?s1" by (simp add: emit_running)
    show ?thesis
    proof (cases sig)
      case True
      let ?t = "emit (Print ''Exiting Through Signal Handler'') ?s1"
      from r1 have "running ?t" by (simp add: emit_running)
      from sys_exit_running(1) [OF this, where sys = final and code = 0]
        sys_exit_running(2) [OF this, where sys = final and code = 0 and r = r]
        True \<open>\<not> stop_event s\<close>
      show ?thesis by (simp add: Let_def)
    next
      case no: False
      from "3.IH" [OF False refl no r1] False no show ?thesis by (simp add: Let_def)
    qed
  qed
qed

lemma emit_as_update: "emit e s = s\<lparr>out := out s @ [e]\<rparr>"
  by (simp add: emit_def)

lemma threads_quiet:
  "list_all (quiet_pass pl) pre \<Longrightarrow> \<not> stop_event s \<Longrightarrow>
   threads final pl (pre @ rest) s = threads final pl rest (s\<lparr>out := out s @ quiet_events pre\<rparr>)"
proof (induction pre arbitrary: s)
  case Nil
  then show ?case by simp
next
  case (Cons x pre)
  show ?case
  proof (cases x)
    case (MonitorPass sys)
    with Cons.prems have h: "list_all (healthy sys) pl" and q: "list_all (quiet_pass pl) pre"
      by simp_all
    have ns: "\<not> stop_event (emit (Sleep 300) s)" using Cons.prems by simp
    from Cons.IH [OF q ns] MonitorPass Cons.prems h show ?thesis
      by (simp add: cycle_healthy emit_as_update)
  next
    case (MainPass sig)
    with Cons.prems have sg: "\<not> sig" and q: "list_all (quiet_pass pl) pre"
      by simp_all
    have ns: "\<not> stop_event (emit (Sleep 10) s)" using Cons.prems by simp
    from Cons.IH [OF q ns] MainPass Cons.prems sg show ?thesis
      by (simp add: Let_def emit_as_update)
  qed
qed

lemma scan_invariant:
  assumes "P s"
    and "\<And>t q. P t \<Longrightarrow>
           P ((emit (Print ''Backplane started.'') t)\<lparr>backplane_exists := True, proc_bp := Some q\<rparr>)"
  shows "P (snd (scan sys xs p s))"
  using assms(1)
proof (induction xs arbitrary: p s)
  case Nil
  then show ?case by simp
next
  case (Cons i rest)
  let ?p' = "case os_Process sys (Some i) of None \<Rightarrow> Some i | Some e \<Rightarrow> p"
  show ?case
  proof (cases ?p')
    case None
    with Cons.prems show ?thesis by (simp add: Let_def)
  next
    case (Some q)
    show ?thesis
    proof (cases "os_name sys (Some q)")
      case (Inl e)
      with Some Cons.prems show ?thesis by (simp add: Let_def)
    next
      case (Inr n)
      show ?thesis
      proof (cases "n = ''backplane''")
        case True
        from Cons.IH [OF assms(2) [OF Cons.prems]] Some Inr True show ?thesis
          by (simp add: Let_def)
      next
        case False
        from Cons.IH [OF Cons.prems] Some Inr False show ?thesis
          by (simp add: Let_def)
      qed
    qed
  qed
qed

lemma scan_fields [simp]:
  "proc_awg (snd (scan sys xs p s)) = proc_awg s"
  "proc_hwg (snd (scan sys xs p s)) = proc_hwg s"
  "stop_event (snd (scan sys xs p s)) = stop_event s"
  "atexit (snd (scan sys xs p s)) = atexit s"
  "com_port (snd (scan sys xs p s)) = com_port s"
  "launches (out (snd (scan sys xs p s))) = launches (out s)"
  by (rule scan_invariant; simp)+

lemma scan_inert: "list_all inert (out s) \<Longrightarrow> list_all inert (out (snd (scan sys xs p s)))"
  by (rule scan_invariant) simp_all

lemma scan_only_prints:
  "list_all (\<lambda>e. e = Print ''Backplane started.'') (out s) \<Longrightarrow>
   list_all (\<lambda>e. e = Print ''Backplane started.'') (out (snd (scan sys xs p s)))"
  by (rule scan_invariant) simp_all

text \<open>
  What a completed scan leaves: the last process it saw as a backplane. The hypothesis on
  \<open>p\<close> says that a backplane object carried over from an earlier pass has already been
  adopted.
\<close>

lemma scan_adopted:
  assumes "fst (scan sys xs p s) = None"
    and "\<forall>q. p = Some q \<and> os_name sys (Some q) = Inr ''backplane''
            \<longrightarrow> proc_bp s = Some q \<and> backplane_exists s"
  shows "proc_bp (snd (scan sys xs p s)) =
           (if filter (\<lambda>i. os_Process sys (Some i) = None \<and>
                            os_name sys (Some i) = Inr ''backplane'') xs = []
            then proc_bp s
            else Some (last (filter (\<lambda>i. os_Process sys (Some i) = None \<and>
                                         os_name sys (Some i) = Inr ''backplane'') xs)))
         \<and> backplane_exists (snd (scan sys xs p s)) =
           (backplane_exists s \<or>
            filter (\<lambda>i. os_Process sys (Some i) = None \<and>
                         os_name sys (Some i) = Inr ''backplane'') xs \<noteq> [])"
  using assms
proof (induction sys xs p s rule: scan.induct)
  case (1 sys p s)
  then show ?case by simp
next
  case (2 sys i rest p s)
  let ?p' = "case os_Process sys (Some i) of None \<Rightarrow> Some i | Some e \<Rightarrow> p"
  from "2.prems"(1) obtain q where q: "?p' = Some q"
    by (cases ?p') (simp_all add: Let_def)
  from "2.prems"(1) q obtain n where n: "os_name sys (Some q) = Inr n"
    by (cases "os_name sys (Some q)") (simp_all add: Let_def)
  show ?case
  proof (cases "n = ''backplane''")
    case True
    let ?t = "(emit (Print ''Backplane started.'') s)\<lparr>backplane_exists := True, proc_bp := Some q\<rparr>"
    from "2.prems"(1) q n True have f: "fst (scan sys rest ?p' ?t) = None"
      by (simp add: Let_def)
    have inv: "\<forall>r. ?p' = Some r \<and> os_name sys (Some r) = Inr ''backplane''
                 \<longrightarrow> proc_bp ?t = Some r \<and> backplane_exists ?t"
      using q by simp
    note ih = "2.IH"(1) [OF refl q n True f inv]
    show ?thesis
    proof (cases "os_Process sys (Some i)")
      case None
      with q have "q = i" by simp
      with ih q n True None show ?thesis by (simp add: Let_def)
    next
      case (Some e)
      with q have "p = Some q" by simp
      with "2.prems"(2) n True have "proc_bp s = Some q" "backplane_exists s" by simp_all
      with ih q n True Some show ?thesis by (simp add: Let_def)
    qed
  next
    case False
    from "2.prems"(1) q n False have f: "fst (scan sys rest ?p' s) = None"
      by (simp add: Let_def)
    have inv: "\<forall>r. ?p' = Some r \<and> os_name sys (Some r) = Inr ''backplane''
                 \<longrightarrow> proc_bp s = Some r \<and> backplane_exists s"
      using q n False by simp
    note ih = "2.IH"(2) [OF refl q n False f inv]
    show ?thesis
    proof (cases "os_Process sys (Some i)")
      case None
      with q have "q = i" by simp
      with ih q n False None show ?thesis by (simp add: Let_def)
    next
      case (Some e)
      with ih q n False show ?thesis by (simp add: Let_def)
    qed
  qed
qed

section \<open>The startup and the whole constructor\<close>

lemma launch_eq:
  "launch sys cmd s =
     (case os_Popen sys cmd of None \<Rightarrow> Inl (OSError cmd) | Some i \<Rightarrow> Inr i,
      emit (Popen cmd (os_win32 sys)) s)"
  by (simp add: launch_def Let_def split: option.splits)

lemma start_backplane_eq:
  "start_backplane sys s =
     (let r = scan sys (os_pids sys) None s
      in if fst r \<noteq> None then r
         else if backplane_exists (snd r) then (None, snd r)
         else (case os_Popen sys [''backplane''] of
                 None \<Rightarrow> (Some (OSError [''backplane'']),
                           emit (Popen [''backplane''] (os_win32 sys)) (snd r))
               | Some i \<Rightarrow>
                   (None, emit (Print ''Backplane started.'')
                            ((emit (Popen [''backplane''] (os_win32 sys)) (snd r))
                               \<lparr>proc_bp := Some i, backplane_exists := True\<rparr>))))"
  by (cases "scan sys (os_pids sys) None s")
     (auto simp: start_backplane_def launch_eq Let_def split: option.splits)

lemma start_wsgw_eq:
  "start_wsgw sys s =
     (case os_Popen sys wsgw_start of
        None \<Rightarrow> (Some (OSError wsgw_start), emit (Popen wsgw_start (os_win32 sys)) s)
      | Some i \<Rightarrow>
          (None, emit (Print ''Websocket Gateway started.'')
                   ((emit (Popen wsgw_start (os_win32 sys)) s)\<lparr>proc_awg := Some i\<rparr>)))"
  by (simp add: start_wsgw_def launch_eq split: option.splits)

lemma start_pbgw_eq:
  "start_pbgw sys s =
     (case os_Popen sys (pbgw_start (com_port s)) of
        None \<Rightarrow> (Some (OSError (pbgw_start (com_port s))),
                  emit (Popen (pbgw_start (com_port s)) (os_win32 sys)) s)
      | Some i \<Rightarrow>
          (None, emit (Print ''Picoboard Gateway started.'')
                   ((emit (Popen (pbgw_start (com_port s)) (os_win32 sys)) s)
                      \<lparr>proc_hwg := Some i\<rparr>)))"
  by (simp add: start_pbgw_def launch_eq split: option.splits)

lemma new_S3P_fields [simp]:
  "com_port (new_S3P c) = c"
  "backplane_exists (new_S3P c) = False"
  "proc_bp (new_S3P c) = None"
  "proc_awg (new_S3P c) = None"
  "proc_hwg (new_S3P c) = None"
  "stop_event (new_S3P c) = False"
  "atexit (new_S3P c) = None"
  "out (new_S3P c) = []"
  by (simp_all add: new_S3P_def)

lemma start_backplane_fields [simp]:
  "proc_awg (snd (start_backplane sys s)) = proc_awg s"
  "proc_hwg (snd (start_backplane sys s)) = proc_hwg s"
  "stop_event (snd (start_backplane sys s)) = stop_event s"
  "atexit (snd (start_backplane sys s)) = atexit s"
  "com_port (snd (start_backplane sys s)) = com_port s"
  by (simp_all add: start_backplane_eq Let_def split: option.splits)

text \<open>The trace of \<open>start_backplane\<close> on a new object.\<close>

lemma start_backplane_trace:
  "list_all (\<lambda>e. e = Print ''Backplane started.'' \<or> e = Popen [''backplane''] (os_win32 sys))
     (out (snd (start_backplane sys (new_S3P c))))"
proof -
  have "list_all (\<lambda>e. e = Print ''Backplane started.'' \<or> e = Popen [''backplane''] (os_win32 sys))
          (out (snd (scan sys (os_pids sys) None (new_S3P c))))"
    by (rule scan_invariant) simp_all
  then show ?thesis
    by (simp add: start_backplane_eq Let_def split: option.splits)
qed

lemma start_backplane_ident:
  assumes "fst (start_backplane sys (new_S3P c)) = None"
  shows "proc_bp (snd (start_backplane sys (new_S3P c))) \<noteq> None"
proof -
  let ?r = "scan sys (os_pids sys) None (new_S3P c)"
  from assms have f: "fst ?r = None"
    by (auto simp: start_backplane_eq Let_def split: if_splits)
  from scan_adopted [OF f] have
    "backplane_exists (snd ?r) \<Longrightarrow> proc_bp (snd ?r) \<noteq> None"
    by (auto split: if_splits)
  with assms f show ?thesis
    by (auto simp: start_backplane_eq Let_def split: if_splits option.splits)
qed

lemma startup_eq:
  "startup sys c =
     (let r1 = start_backplane sys (new_S3P c) in
      if fst r1 \<noteq> None then r1
      else let r2 = start_wsgw sys (emit (Sleep 1000) (snd r1)) in
           if fst r2 \<noteq> None then r2 else start_pbgw sys (snd r2))"
  by (cases "start_backplane sys (new_S3P c)";
      cases "start_wsgw sys (emit (Sleep 1000) (snd (start_backplane sys (new_S3P c))))")
     (auto simp: startup_def Let_def split: option.splits)


lemma startup_trace:
  assumes "fst (startup sys c) = None"
  shows "fst (start_backplane sys (new_S3P c)) = None"
    and "out (snd (startup sys c)) =
           out (snd (start_backplane sys (new_S3P c))) @
           [Sleep 1000,
            Popen wsgw_start (os_win32 sys), Print ''Websocket Gateway started.'',
            Popen (pbgw_start c) (os_win32 sys), Print ''Picoboard Gateway started.'']"
    and "proc_bp (snd (startup sys c)) = proc_bp (snd (start_backplane sys (new_S3P c)))"
    and "proc_awg (snd (startup sys c)) = os_Popen sys wsgw_start"
    and "proc_hwg (snd (startup sys c)) = os_Popen sys (pbgw_start c)"
  using assms
  by (auto simp: startup_eq start_wsgw_eq start_pbgw_eq Let_def split: option.splits if_splits)

lemma startup_failed_launch:
  assumes "os_Popen sys cmd = None"
    and "cmd \<in> set (launches (out (snd (startup sys c))))"
  shows "fst (startup sys c) = Some (OSError cmd) \<and>
         last (out (snd (startup sys c))) = Popen cmd (os_win32 sys)"
  using assms
  by (auto simp: startup_eq start_backplane_eq start_wsgw_eq start_pbgw_eq Let_def
           split: option.splits if_splits)

lemma advisories_out:
  "out (advisories s) = out s
     @ (if \<not> truthy (py (proc_bp s)) then [Print ''backplane not up'', Print ''wsgw not up'']
        else [])
     @ (if \<not> truthy (py (proc_hwg s)) then [Print ''pbgw not up''] else [])"
  by (simp add: advisories_def)

lemma advisories_fields [simp]:
  "proc_bp (advisories s) = proc_bp s"
  "proc_awg (advisories s) = proc_awg s"
  "proc_hwg (advisories s) = proc_hwg s"
  "stop_event (advisories s) = stop_event s"
  "atexit (advisories s) = atexit s"
  by (simp_all add: advisories_def)

lemma arm_fields [simp]:
  "proc_bp (arm s) = proc_bp s"
  "proc_awg (arm s) = proc_awg s"
  "proc_hwg (arm s) = proc_hwg s"
  "stop_event (arm s) = False"
  "atexit (arm s) = Some (py (proc_bp s), py (proc_awg s), py (proc_hwg s))"
  "launches (out (arm s)) = launches (out s)"
  by (simp_all add: arm_def advisories_out)

lemma arm_prefix: "prefix (out s) (out (arm s))"
  by (simp add: arm_def advisories_out)

lemma arm_running: "list_all inert (out s) \<Longrightarrow> running (arm s)"
  using inert_trace [of "out s" False]
  by (simp add: running_def arm_def advisories_out)

lemma startup_inert: "list_all inert (out (snd (startup sys c)))"
proof -
  have "list_all inert (out (snd (scan sys (os_pids sys) None (new_S3P c))))"
    by (rule scan_inert) simp
  then show ?thesis
    by (simp add: startup_eq start_backplane_eq start_wsgw_eq start_pbgw_eq Let_def
             split: option.splits)
qed

lemma killall_prefix: "prefix (out s) (out (killall sys b w p s))"
  by (simp add: killall_out)

lemma poll_prefix: "prefix (out s) (out (poll sys i s))"
  by (simp add: poll_def killall_None split: option.splits sum.splits)

lemma polls_prefix: "prefix (out s) (out (foldl (\<lambda>t i. poll sys i t) s pl))"
proof (induction pl arbitrary: s)
  case Nil
  show ?case by simp
next
  case (Cons i pl)
  from poll_prefix [of s sys i] Cons [of "poll sys i s"] show ?case
    by (auto intro: prefix_order.trans)
qed

lemma cycle_prefix: "prefix (out s) (out (cycle sys pl s))"
  using polls_prefix [of s sys pl] by (simp add: cycle_def)

lemma sys_exit_prefix: "prefix (out s) (out (snd (sys_exit sys code s)))"
  by (simp add: sys_exit_def killall_out split: option.splits prod.splits)

lemma threads_prefix: "prefix (out s) (out (snd (threads final pl sched s)))"
proof (induction final pl sched s rule: threads.induct)
  case (1 final pl s)
  show ?case by simp
next
  case (2 final pl sys rest s)
  from "2.IH" cycle_prefix [of s sys pl] show ?case
    by (auto intro: prefix_order.trans)
next
  case (3 final pl sig rest s)
  have b: "prefix (out s) (out (snd (sys_exit final 0 (emit e s))))" for e
    using sys_exit_prefix [of "emit e s" final 0] by (auto dest: append_prefixD)
  have c: "prefix (out s) (out (snd (sys_exit final 0 (emit e (emit e' s)))))" for e e'
    using sys_exit_prefix [of "emit e (emit e' s)" final 0] by (auto dest: append_prefixD)
  from "3.IH" b c show ?case
    by (auto simp: Let_def dest: append_prefixD)
qed

text \<open>The state a run ends in, from the state the startup left.\<close>

lemma S3P_init_cases:
  "S3P_init boot final c sched =
     (case fst (startup boot c) of
        Some e \<Rightarrow> Raised e (snd (startup boot c))
      | None \<Rightarrow>
          (let r = threads final (pid_list_of (arm (snd (startup boot c)))) sched
                     (arm (snd (startup boot c)))
           in case fst r of None \<Rightarrow> StillRunning (snd r) | Some code \<Rightarrow> Exited code (snd r)))"
  by (auto simp: S3P_init_def Let_def split: prod.splits option.splits)

lemma state_of_S3P_init:
  "state_of (S3P_init boot final c sched) =
     (if fst (startup boot c) \<noteq> None then snd (startup boot c)
      else snd (threads final (pid_list_of (arm (snd (startup boot c)))) sched
                  (arm (snd (startup boot c)))))"
  by (auto simp: S3P_init_cases Let_def split: option.splits)

lemma S3P_init_launches:
  "launches (out (state_of (S3P_init boot final c sched))) = launches (out (snd (startup boot c)))"
  by (simp add: state_of_S3P_init)

lemma S3P_init_idents:
  "proc_bp (state_of (S3P_init boot final c sched)) = proc_bp (snd (startup boot c))"
  "proc_awg (state_of (S3P_init boot final c sched)) = proc_awg (snd (startup boot c))"
  "proc_hwg (state_of (S3P_init boot final c sched)) = proc_hwg (snd (startup boot c))"
  by (simp_all add: state_of_S3P_init)

lemma S3P_init_prefix:
  "prefix (out (snd (startup boot c))) (out (state_of (S3P_init boot final c sched)))"
  using arm_prefix [of "snd (startup boot c)"]
    threads_prefix [of "arm (snd (startup boot c))" final
                       "pid_list_of (arm (snd (startup boot c)))" sched]
  by (auto simp: state_of_S3P_init intro: prefix_order.trans)

lemma startup_backplane_ident:
  "fst (start_backplane sys (new_S3P c)) = None \<Longrightarrow>
   proc_bp (snd (startup sys c)) = proc_bp (snd (start_backplane sys (new_S3P c)))"
  by (simp add: startup_eq start_wsgw_eq start_pbgw_eq Let_def split: option.splits)

lemma gateway_commands [simp]:
  "wsgw_start \<noteq> [''backplane'']" "pbgw_start c \<noteq> [''backplane'']"
  by (simp_all add: wsgw_start_def pbgw_start_def split: option.splits)

lemma startup_launches_subset:
  "set (launches (out (snd (startup sys c))))
     \<subseteq> set (launches (out (snd (start_backplane sys (new_S3P c))))) \<union> {wsgw_start, pbgw_start c}"
  by (auto simp: startup_eq start_wsgw_eq start_pbgw_eq Let_def split: option.splits if_splits)

lemma threads_still_running:
  "running s \<Longrightarrow> fst (threads final pl sched s) = None \<Longrightarrow>
   running (snd (threads final pl sched s))"
proof (induction final pl sched s rule: threads.induct)
  case (1 final pl s)
  then show ?case by simp
next
  case (2 final pl sys rest s)
  from "2.prems"(1) have "running (if stop_event s then s else cycle sys pl s)"
    by (simp add: cycle_running)
  from "2.IH" [OF this] "2.prems"(2) show ?case by simp
next
  case (3 final pl sig rest s)
  from "3.prems"(2) have ns: "\<not> stop_event s" and nsig: "\<not> sig"
    by (auto simp: Let_def split: if_splits)
  from "3.prems"(1) have "running (emit (Sleep 10) s)" by (simp add: emit_running)
  from "3.IH" [OF ns refl nsig this] "3.prems"(2) ns nsig show ?case
    by (simp add: Let_def)
qed


lemma exit_kill_attempts:
  assumes "atexit s = Some (py (proc_bp s), py (proc_awg s), py (proc_hwg s))"
    and "truthy (py (ident r s))" and "os_Process final (ident r s) = None"
  shows "Kill r (ident r s) \<in> set (out (snd (sys_exit final code s)))"
  using assms
  by (cases r)
     (simp_all add: sys_exit_def killall_out killall_events_def third_runs_def block_events_def)

text \<open>The definitions a concrete run is evaluated with.\<close>

lemmas run_defs =
  S3P_init_cases startup_eq start_backplane_eq start_wsgw_eq start_pbgw_eq plain_os_def
  pbgw_start_def wsgw_start_def arm_def advisories_def pid_list_of_def cycle_def poll_def
  killall_None valid_status_def sys_exit_def killall_out killall_events_def third_runs_def
  block_events_def Let_def

lemma startup_idents_known:
  assumes "fst (startup sys c) = None"
  shows "ident r (snd (startup sys c)) \<noteq> None"
proof -
  note t = startup_trace [OF assms]
  from t(1) have b: "proc_bp (snd (startup sys c)) \<noteq> None"
    by (simp add: t(3) start_backplane_ident)
  from assms have w: "os_Popen sys wsgw_start \<noteq> None"
    by (auto simp: startup_eq start_wsgw_eq Let_def split: option.splits if_splits)
  from assms have p: "os_Popen sys (pbgw_start c) \<noteq> None"
    by (auto simp: startup_eq start_wsgw_eq start_pbgw_eq Let_def split: option.splits if_splits)
  from b w p t(4) t(5) show ?thesis by (cases r) simp_all
qed

lemma known_nonzero_truthy:
  "i \<noteq> None \<Longrightarrow> i \<noteq> Some 0 \<Longrightarrow> truthy (py i)"
  by (cases i) simp_all

lemma startup_idents_truthy:
  assumes "fst (startup sys c) = None"
    and "Some 0 \<notin> set (pid_list_of (snd (startup sys c)))"
  shows "truthy (py (ident r (snd (startup sys c))))"
proof -
  from assms(2) have "ident r (snd (startup sys c)) \<noteq> Some 0"
    by (cases r) (auto simp: pid_list_of_def)
  with startup_idents_known [OF assms(1), of r] show ?thesis
    by (rule known_nonzero_truthy)
qed




text \<open>A completed \<open>start_backplane\<close> that saw a backplane leaves the last one seen.\<close>

lemma start_backplane_last:
  assumes "start_backplane sys s = (None, s')" and "backplanes sys \<noteq> []"
  shows "proc_bp s' = Some (last (backplanes sys))"
proof -
  let ?r = "scan sys (os_pids sys) None s"
  from assms(1) have f: "fst ?r = None"
    by (auto simp: start_backplane_def split: prod.splits option.splits if_splits sum.splits)
  from scan_adopted [OF f] assms(2)
  have a: "proc_bp (snd ?r) = Some (last (backplanes sys))" and b: "backplane_exists (snd ?r)"
    by (simp_all add: backplanes_def)
  from assms(1) f b have "s' = snd ?r"
    by (auto simp: start_backplane_def split: prod.splits option.splits if_splits sum.splits)
  with a show ?thesis by simp
qed

section \<open>The scan of \<open>start_backplane\<close>\<close>

text \<open>
  C7, as the code has it at a failing input. The enumeration is \<open>[1, 2]\<close> and process 1
  has gone when its object is made (\<open>NoSuchProcess\<close>). The \<open>except\<close> clause passes,
  \<open>p\<close> is still \<open>None\<close>, and \<open>p.name()\<close> raises \<open>AttributeError\<close>: the scan does not
  skip the entry, \<open>start_backplane\<close> fails and nothing has been started.
\<close>

theorem scan_fails_when_first_entry_vanished:
  "start_backplane
     (plain_os\<lparr>os_pids := [1, 2],
               os_Process := (\<lambda>i. if i = Some 1 then Some NoSuchProcess else None)\<rparr>)
     (new_S3P None)
   = (Some AttributeError, new_S3P None)"
  by (simp add: start_backplane_def plain_os_def)

text \<open>
  C6, as stated, fails: with two processes named \<open>backplane\<close> in the enumeration, 100
  before 200, both visible to the scan, the identifier adopted is 200, the second.
\<close>

theorem scan_two_backplanes_adopts_second:
  "backplanes (plain_os\<lparr>os_pids := [100, 200], os_name := (\<lambda>i. Inr ''backplane'')\<rparr>)
     = [100, 200] \<and>
   fst (start_backplane
          (plain_os\<lparr>os_pids := [100, 200], os_name := (\<lambda>i. Inr ''backplane'')\<rparr>)
          (new_S3P None)) = None \<and>
   proc_bp (snd (start_backplane
                   (plain_os\<lparr>os_pids := [100, 200], os_name := (\<lambda>i. Inr ''backplane'')\<rparr>)
                   (new_S3P None))) = Some 200"
  by (simp add: start_backplane_def plain_os_def backplanes_def new_S3P_def)

text \<open>
  C6, amended: the loop has no \<open>break\<close> and assigns \<open>proc_bp\<close> at every match, so when
  the scan completes and at least one enumerated process is seen as a backplane, the
  identifier adopted is that of the last such process in enumeration order.
\<close>

theorem scan_adopts_last_backplane:
  assumes "start_backplane sys s = (None, s')" and "backplanes sys \<noteq> []"
  shows "proc_bp s' = Some (last (backplanes sys))"
  using assms by (rule start_backplane_last)

theorem scan_adopts_last_backplane_witness:
  "proc_bp (snd (start_backplane
                   (plain_os\<lparr>os_pids := [100, 200], os_name := (\<lambda>i. Inr ''backplane'')\<rparr>)
                   (new_S3P None))) = Some 200"
  using scan_adopts_last_backplane
    [of "plain_os\<lparr>os_pids := [100, 200], os_name := (\<lambda>i. Inr ''backplane'')\<rparr>"
        "new_S3P None"
        "snd (start_backplane
                (plain_os\<lparr>os_pids := [100, 200], os_name := (\<lambda>i. Inr ''backplane'')\<rparr>)
                (new_S3P None))"]
  by (simp add: start_backplane_def plain_os_def backplanes_def new_S3P_def)

section \<open>The advisory lines of the monitor\<close>



section \<open>The local \<open>p\<close> of \<open>killall\<close>\<close>



section \<open>The order of the startup\<close>

text \<open>
  C9: whenever the startup (lines 44 to 61) completes without an exception,
  \<open>start_backplane\<close> has completed and left an identifier, having done nothing but
  print its message and, when no backplane was found, launch \<open>backplane\<close>; the trace
  of the run then continues with \<open>time.sleep(1)\<close>, the launch of the websocket gateway
  and the launch of the picoboard gateway, in this order, and no other launch happens in
  the whole run. So both gateways are launched after the one-second sleep.
\<close>

theorem startup_order:
  assumes "fst (startup boot c) = None"
  shows "fst (start_backplane boot (new_S3P c)) = None \<and>
         proc_bp (snd (start_backplane boot (new_S3P c))) \<noteq> None \<and>
         list_all (\<lambda>e. e = Print ''Backplane started.'' \<or>
                         e = Popen [''backplane''] (os_win32 boot))
           (out (snd (start_backplane boot (new_S3P c)))) \<and>
         prefix (out (snd (start_backplane boot (new_S3P c))) @
                 [Sleep 1000,
                  Popen wsgw_start (os_win32 boot), Print ''Websocket Gateway started.'',
                  Popen (pbgw_start c) (os_win32 boot), Print ''Picoboard Gateway started.''])
           (out (state_of (S3P_init boot final c sched))) \<and>
         launches (out (state_of (S3P_init boot final c sched))) =
           launches (out (snd (start_backplane boot (new_S3P c)))) @ [wsgw_start, pbgw_start c]"
proof -
  note t = startup_trace [OF assms]
  from t(1) have "proc_bp (snd (start_backplane boot (new_S3P c))) \<noteq> None"
    by (rule start_backplane_ident)
  moreover from S3P_init_prefix [of boot c final sched] t(2)
  have "prefix (out (snd (start_backplane boot (new_S3P c))) @
                 [Sleep 1000,
                  Popen wsgw_start (os_win32 boot), Print ''Websocket Gateway started.'',
                  Popen (pbgw_start c) (os_win32 boot), Print ''Picoboard Gateway started.''])
           (out (state_of (S3P_init boot final c sched)))"
    by simp
  moreover from t(2) have "launches (out (state_of (S3P_init boot final c sched))) =
           launches (out (snd (start_backplane boot (new_S3P c)))) @ [wsgw_start, pbgw_start c]"
    by (simp add: S3P_init_launches)
  ultimately show ?thesis using t(1) start_backplane_trace [of boot c] by simp
qed

theorem startup_order_witness:
  "fst (startup plain_os None) = None \<and>
   prefix [Popen [''backplane''] False, Print ''Backplane started.'', Sleep 1000,
           Popen wsgw_start False, Print ''Websocket Gateway started.'',
           Popen [''pbgw''] False, Print ''Picoboard Gateway started.'']
     (out (state_of (S3P_init plain_os plain_os None [MainPass True])))"
proof -
  have s: "fst (startup plain_os None) = None"
    by (simp add: startup_eq start_backplane_eq start_wsgw_eq start_pbgw_eq plain_os_def)
  have b: "out (snd (start_backplane plain_os (new_S3P None)))
             = [Popen [''backplane''] False, Print ''Backplane started.'']"
    by (simp add: start_backplane_eq plain_os_def)
  have p: "pbgw_start None = [''pbgw'']" by (simp add: pbgw_start_def)
  have w: "os_win32 plain_os = False" by (simp add: plain_os_def)
  from startup_order [OF s, of plain_os "[MainPass True]"] s show ?thesis
    by (simp add: b p w)
qed

section \<open>A launch that fails\<close>

text \<open>
  C4, as stated, fails in its second half: the supervisor reports nothing. When the
  launch of the websocket gateway fails, the \<open>OSError\<close> of \<open>Popen\<close> leaves the
  constructor uncaught; the trace ends with the failed \<open>Popen\<close>, and the only line
  printed names the backplane, which did start.
\<close>

theorem failed_wsgw_launch_prints_nothing_about_it:
  "S3P_init (plain_os\<lparr>os_Popen := (\<lambda>cmd. if cmd = wsgw_start then None else Some 100)\<rparr>)
     plain_os None [MainPass True]
   = Raised (OSError wsgw_start)
       ((new_S3P None)\<lparr>backplane_exists := True, proc_bp := Some 100,
          out := [Popen [''backplane''] False, Print ''Backplane started.'', Sleep 1000,
                  Popen wsgw_start False]\<rparr>)"
  by (simp add: S3P_init_cases startup_eq start_backplane_eq start_wsgw_eq plain_os_def
        new_S3P_def emit_def wsgw_start_def)

text \<open>
  C4, amended: whichever launch fails, the constructor ends at once with the \<open>OSError\<close>
  of that launch (it carries the command of the role that failed), the failed \<open>Popen\<close>
  is the last thing the run does, so no subsequent role is started and no message about
  the failure is printed by the supervisor itself.
\<close>

theorem failed_launch_ends_startup:
  assumes "os_Popen boot cmd = None"
    and "cmd \<in> set (launches (out (state_of (S3P_init boot final c sched))))"
  shows "S3P_init boot final c sched
           = Raised (OSError cmd) (state_of (S3P_init boot final c sched)) \<and>
         last (out (state_of (S3P_init boot final c sched))) = Popen cmd (os_win32 boot)"
proof -
  from assms(2) have "cmd \<in> set (launches (out (snd (startup boot c))))"
    by (simp add: S3P_init_launches)
  from startup_failed_launch [OF assms(1) this] show ?thesis
    by (simp add: S3P_init_cases)
qed

theorem failed_launch_ends_startup_witness:
  "S3P_init (plain_os\<lparr>os_Popen := (\<lambda>cmd. if cmd = wsgw_start then None else Some 100)\<rparr>)
     plain_os None [MainPass True]
   = Raised (OSError wsgw_start)
       (state_of (S3P_init (plain_os\<lparr>os_Popen := (\<lambda>cmd. if cmd = wsgw_start then None else Some 100)\<rparr>)
          plain_os None [MainPass True])) \<and>
   last (out (state_of (S3P_init (plain_os\<lparr>os_Popen := (\<lambda>cmd. if cmd = wsgw_start then None else Some 100)\<rparr>)
          plain_os None [MainPass True]))) = Popen wsgw_start False"
proof -
  let ?boot = "plain_os\<lparr>os_Popen := (\<lambda>cmd. if cmd = wsgw_start then None else Some 100)\<rparr>"
  have a: "os_Popen ?boot wsgw_start = None" by simp
  have l: "launches (out (snd (startup ?boot None))) = [[''backplane''], wsgw_start]"
    by (simp add: startup_eq start_backplane_eq start_wsgw_eq plain_os_def wsgw_start_def)
  have b: "wsgw_start \<in> set (launches (out (state_of (S3P_init ?boot plain_os None [MainPass True]))))"
    by (simp add: S3P_init_launches l)
  have w: "os_win32 ?boot = False" by (simp add: plain_os_def)
  from failed_launch_ends_startup [OF a b] w show ?thesis by simp
qed

section \<open>A backplane that is already running\<close>

text \<open>
  C5: when the enumeration holds a process the scan can see as a backplane (its object is
  made and its name is \<open>backplane\<close>), no run of the constructor ever launches
  \<open>backplane\<close>, whatever happens later; and when \<open>start_backplane\<close> completes, the
  identifier the object holds for the rest of the run is that of such a process of the
  enumeration (the last one seen).
\<close>

theorem existing_backplane_adopted_not_launched:
  assumes "backplanes boot \<noteq> []"
  shows "[''backplane''] \<notin> set (launches (out (state_of (S3P_init boot final c sched)))) \<and>
         (fst (start_backplane boot (new_S3P c)) = None \<longrightarrow>
            proc_bp (state_of (S3P_init boot final c sched)) = Some (last (backplanes boot)) \<and>
            last (backplanes boot) \<in> set (os_pids boot) \<and>
            os_name boot (Some (last (backplanes boot))) = Inr ''backplane'')"
proof -
  let ?r = "scan boot (os_pids boot) None (new_S3P c)"
  let ?b = "start_backplane boot (new_S3P c)"
  have found: "fst ?r = None \<Longrightarrow> backplane_exists (snd ?r)"
    using scan_adopted [of boot "os_pids boot" None "new_S3P c"] assms
    by (simp add: backplanes_def)
  then have "launches (out (snd ?b)) = []"
    by (auto simp: start_backplane_eq Let_def)
  with startup_launches_subset [of boot c]
  have "set (launches (out (snd (startup boot c)))) \<subseteq> {wsgw_start, pbgw_start c}"
    by simp
  moreover have "[''backplane''] \<notin> {wsgw_start, pbgw_start c}"
    using gateway_commands(1) gateway_commands(2) [of c] by (simp add: eq_commute)
  ultimately have no: "[''backplane''] \<notin> set (launches (out (state_of (S3P_init boot final c sched))))"
    unfolding S3P_init_launches by blast
  have ad: "proc_bp (state_of (S3P_init boot final c sched)) = Some (last (backplanes boot))"
    if ok: "fst ?b = None"
  proof -
    from ok have "?b = (None, snd ?b)" by (cases ?b) simp
    from start_backplane_last [OF this assms] show ?thesis
      by (simp add: S3P_init_idents startup_backplane_ident [OF ok])
  qed
  from assms have "last (backplanes boot) \<in> set (backplanes boot)" by simp
  then have "last (backplanes boot) \<in> set (os_pids boot) \<and>
             os_name boot (Some (last (backplanes boot))) = Inr ''backplane''"
    by (simp add: backplanes_def)
  with no ad show ?thesis by simp
qed

theorem existing_backplane_adopted_not_launched_witness:
  "backplanes (plain_os\<lparr>os_pids := [5, 100],
                 os_name := (\<lambda>i. if i = Some 100 then Inr ''backplane'' else Inr ''init'')\<rparr>)
     \<noteq> [] \<and>
   [''backplane''] \<notin> set (launches (out (state_of (S3P_init
        (plain_os\<lparr>os_pids := [5, 100],
                 os_name := (\<lambda>i. if i = Some 100 then Inr ''backplane'' else Inr ''init'')\<rparr>)
        plain_os None [MainPass True])))) \<and>
   proc_bp (state_of (S3P_init
        (plain_os\<lparr>os_pids := [5, 100],
                 os_name := (\<lambda>i. if i = Some 100 then Inr ''backplane'' else Inr ''init'')\<rparr>)
        plain_os None [MainPass True])) = Some 100"
proof -
  let ?boot = "plain_os\<lparr>os_pids := [5, 100],
                 os_name := (\<lambda>i. if i = Some 100 then Inr ''backplane'' else Inr ''init'')\<rparr>"
  have b: "backplanes ?boot = [100]" by (simp add: backplanes_def plain_os_def)
  then have n: "backplanes ?boot \<noteq> []" by simp
  have f: "fst (start_backplane ?boot (new_S3P None)) = None"
    by (simp add: start_backplane_eq plain_os_def)
  from existing_backplane_adopted_not_launched [OF n, of plain_os None "[MainPass True]"] f b n
  show ?thesis by simp
qed

section \<open>The exit status\<close>




section \<open>The stop event and the calls of \<open>kill()\<close> in a run\<close>

text \<open>
  C2: in every run, under every schedule of monitor passes, main passes and signals, the
  stop event goes from unset to set at most once, and exactly once when the run has
  exited; and \<open>kill()\<close> is called at most once in the block of each role. (The monitor
  calls \<open>killall\<close> with three \<open>None\<close>s, as often as it detects something; only the
  exit handler, which runs once, passes identifiers.)
\<close>

theorem stop_event_rises_once_kills_once:
  "rises False (out (state_of (S3P_init boot final c sched))) \<le> 1 \<and>
   (\<forall>r. kills r (out (state_of (S3P_init boot final c sched))) \<le> 1) \<and>
   (StopSet \<in> set (out (state_of (S3P_init boot final c sched))) \<or>
    exit_code (S3P_init boot final c sched) \<noteq> None \<longrightarrow>
      rises False (out (state_of (S3P_init boot final c sched))) = 1)"
proof (cases "fst (startup boot c)")
  case (Some e)
  have "rises False (out (snd (startup boot c))) = 0 \<and> kills r (out (snd (startup boot c))) = 0"
    for r
    using inert_trace [OF startup_inert [of boot c], of False r] by simp
  with Some set_rises [of "out (snd (startup boot c))"] show ?thesis
    by (auto simp: S3P_init_cases)
next
  case None
  have "running (arm (snd (startup boot c)))"
    by (rule arm_running) (rule startup_inert)
  from threads_running [OF this, of final "pid_list_of (arm (snd (startup boot c)))" sched]
    None
  have "rises False (out (state_of (S3P_init boot final c sched))) \<le> 1 \<and>
        (\<forall>r. kills r (out (state_of (S3P_init boot final c sched))) \<le> 1) \<and>
        (exit_code (S3P_init boot final c sched) \<noteq> None \<longrightarrow>
           rises False (out (state_of (S3P_init boot final c sched))) = 1)"
    by (auto simp: S3P_init_cases Let_def split: option.splits)
  with set_rises [of "out (state_of (S3P_init boot final c sched))"] show ?thesis
    by auto
qed

theorem stop_event_rises_once_kills_once_witness:
  "exit_code (S3P_init plain_os plain_os None
      [MonitorPass (plain_os\<lparr>os_status := (\<lambda>i. Inr ''zombie'')\<rparr>),
       MonitorPass (plain_os\<lparr>os_status := (\<lambda>i. Inr ''zombie'')\<rparr>),
       MainPass True]) \<noteq> None \<and>
   rises False (out (state_of (S3P_init plain_os plain_os None
      [MonitorPass (plain_os\<lparr>os_status := (\<lambda>i. Inr ''zombie'')\<rparr>),
       MonitorPass (plain_os\<lparr>os_status := (\<lambda>i. Inr ''zombie'')\<rparr>),
       MainPass True]))) = 1 \<and>
   kills PicoboardGateway (out (state_of (S3P_init plain_os plain_os None
      [MonitorPass (plain_os\<lparr>os_status := (\<lambda>i. Inr ''zombie'')\<rparr>),
       MonitorPass (plain_os\<lparr>os_status := (\<lambda>i. Inr ''zombie'')\<rparr>),
       MainPass True]))) \<le> 1"
proof -
  let ?run = "S3P_init plain_os plain_os None
      [MonitorPass (plain_os\<lparr>os_status := (\<lambda>i. Inr ''zombie'')\<rparr>),
       MonitorPass (plain_os\<lparr>os_status := (\<lambda>i. Inr ''zombie'')\<rparr>),
       MainPass True]"
  have h: "exit_code ?run \<noteq> None" by (simp add: run_defs)
  from stop_event_rises_once_kills_once
         [of plain_os plain_os None
             "[MonitorPass (plain_os\<lparr>os_status := (\<lambda>i. Inr ''zombie'')\<rparr>),
               MonitorPass (plain_os\<lparr>os_status := (\<lambda>i. Inr ''zombie'')\<rparr>),
               MainPass True]"] h
  show ?thesis by blast
qed

section \<open>From a detection by the monitor to the calls of \<open>kill()\<close>\<close>

text \<open>
  C1. After a completed startup (no identifier being 0, which no process the supervisor
  launches or adopts has) and any number of uneventful passes, let a monitor pass find
  some identifier of its list unhealthy: the process object is not made, the status query
  fails, or the status is not a valid one. Then that pass sets the stop event, the next
  pass of the main loop exits, and the shutdown routine has run for all three roles: each
  has its identifier, and \<open>kill()\<close> has been called on each whose process object could
  be made (a process that has exited or is inaccessible needs no kill). Nothing is assumed
  of \<open>os_kill\<close>: a \<open>kill()\<close> that raises does not keep the later blocks from running.
\<close>

theorem detection_kills_every_known_process:
  assumes ok: "fst (startup boot c) = None"
    and nz: "Some 0 \<notin> set (pid_list_of (snd (startup boot c)))"
    and quiet: "list_all (quiet_pass (pid_list_of (snd (startup boot c)))) pre"
    and bad: "\<not> list_all (healthy sys) (pid_list_of (snd (startup boot c)))"
  shows "stop_event (state_of (S3P_init boot final c (pre @ [MonitorPass sys]))) \<and>
         exit_code (S3P_init boot final c (pre @ MonitorPass sys # MainPass sig # rest))
           = Some 0 \<and>
         (\<forall>r. ident r (snd (startup boot c)) \<noteq> None \<and>
              (os_Process final (ident r (snd (startup boot c))) = None \<longrightarrow>
                 Kill r (ident r (snd (startup boot c)))
                   \<in> set (out (state_of (S3P_init boot final c
                                  (pre @ MonitorPass sys # MainPass sig # rest))))))"
proof -
  let ?s0 = "snd (startup boot c)"
  let ?a = "arm ?s0"
  let ?pl = "pid_list_of ?s0"
  let ?a' = "?a\<lparr>out := out ?a @ quiet_events pre\<rparr>"
  let ?m = "cycle sys ?pl ?a'"
  let ?msg = "Print ''Exiting. Error detected - is your Picoboard plugged in?''"
  have pl: "pid_list_of ?a = ?pl" by (simp add: pid_list_of_def)
  have ns: "\<not> stop_event ?a" by simp
  have stop: "stop_event ?m" using bad by (simp add: cycle_stop_event)
  have t1: "threads final ?pl (pre @ [MonitorPass sys]) ?a = (None, ?m)"
    using threads_quiet [OF quiet ns, of final "[MonitorPass sys]"] by simp
  have t2: "threads final ?pl (pre @ MonitorPass sys # MainPass sig # rest) ?a
              = sys_exit final 0 (emit ?msg ?m)"
    using threads_quiet [OF quiet ns, of final "MonitorPass sys # MainPass sig # rest"] stop
    by simp
  have id: "ident r (emit ?msg ?m) = ident r ?s0" for r by (cases r) simp_all
  have at: "atexit (emit ?msg ?m)
              = Some (py (proc_bp (emit ?msg ?m)), py (proc_awg (emit ?msg ?m)),
                      py (proc_hwg (emit ?msg ?m)))"
    by simp
  have k: "Kill r (ident r ?s0) \<in> set (out (snd (sys_exit final 0 (emit ?msg ?m))))"
    if "os_Process final (ident r ?s0) = None" for r
    using exit_kill_attempts [OF at, of r final 0] that startup_idents_truthy [OF ok nz, of r]
    by (simp add: id)
  from ok t1 t2 stop k startup_idents_known [OF ok] show ?thesis
    by (simp add: S3P_init_cases pl)
qed

theorem detection_kills_every_known_process_witness:
  "exit_code (S3P_init plain_os (plain_os\<lparr>os_kill := (\<lambda>i. False)\<rparr>) None
      [MonitorPass plain_os, MainPass False,
       MonitorPass (plain_os\<lparr>os_status := (\<lambda>i. if i = Some 300 then Inr ''zombie''
                                                else Inr ''running'')\<rparr>),
       MainPass False]) = Some 0 \<and>
   {Kill Backplane (Some 100), Kill WebsocketGateway (Some 200),
    Kill PicoboardGateway (Some 300)}
     \<subseteq> set (out (state_of (S3P_init plain_os (plain_os\<lparr>os_kill := (\<lambda>i. False)\<rparr>) None
      [MonitorPass plain_os, MainPass False,
       MonitorPass (plain_os\<lparr>os_status := (\<lambda>i. if i = Some 300 then Inr ''zombie''
                                                else Inr ''running'')\<rparr>),
       MainPass False])))"
proof -
  let ?final = "plain_os\<lparr>os_kill := (\<lambda>i. False)\<rparr>"
  let ?sys = "plain_os\<lparr>os_status := (\<lambda>i. if i = Some 300 then Inr ''zombie''
                                                else Inr ''running'')\<rparr>"
  let ?s0 = "snd (startup plain_os None)"
  have ok: "fst (startup plain_os None) = None"
    by (simp add: startup_eq start_backplane_eq start_wsgw_eq start_pbgw_eq plain_os_def)
  have ids: "proc_bp ?s0 = Some 100" "proc_awg ?s0 = Some 200" "proc_hwg ?s0 = Some 300"
    by (simp_all add: startup_eq start_backplane_eq start_wsgw_eq start_pbgw_eq plain_os_def
          pbgw_start_def wsgw_start_def)
  have pl: "pid_list_of ?s0 = [Some 100, Some 200, Some 300]"
    by (simp add: pid_list_of_def ids)
  have nz: "Some 0 \<notin> set (pid_list_of ?s0)" unfolding pl by simp
  have quiet: "list_all (quiet_pass (pid_list_of ?s0)) [MonitorPass plain_os, MainPass False]"
    unfolding pl by (simp add: healthy_def plain_os_def valid_status_def)
  have bad: "\<not> list_all (healthy ?sys) (pid_list_of ?s0)"
    unfolding pl by (simp add: healthy_def plain_os_def valid_status_def)
  note t = detection_kills_every_known_process [OF ok nz quiet bad, of ?final False "[]"]
  from t have k: "os_Process ?final (ident r ?s0) = None \<Longrightarrow>
      Kill r (ident r ?s0) \<in> set (out (state_of (S3P_init plain_os ?final None
         ([MonitorPass plain_os, MainPass False] @ [MonitorPass ?sys, MainPass False]))))" for r
    by blast
  have p: "os_Process plain_os i = None" for i by (simp add: plain_os_def)
  from k [of Backplane] k [of WebsocketGateway] k [of PicoboardGateway] t
  show ?thesis by (simp add: ids p)
qed

end
